theory Spec2Isabelle
  imports Main "HOL-Library.Sublist"
begin

section \<open>Strings as the source uses them\<close>

text \<open>
  JavaScript strings are modelled as \<^typ>\<open>string\<close>. \<open>s.includes(t)\<close> is the contiguous
  substring test, \<open>s.startsWith(t)\<close> the prefix test. \<open>toLowerCase\<close> maps the letters
  \<open>A\<close>..\<open>Z\<close> to \<open>a\<close>..\<open>z\<close> and leaves every other character alone: the model covers
  ASCII text, on which JavaScript does the same. A string is falsy exactly when it is
  empty, and an absent (\<open>undefined\<close>) value is \<open>None\<close>.
\<close>

definition str_includes :: "string \<Rightarrow> string \<Rightarrow> bool" where
  "str_includes s t = sublist t s"

definition startsWith :: "string \<Rightarrow> string \<Rightarrow> bool" where
  "startsWith s t = prefix t s"

definition toLowerChar :: "char \<Rightarrow> char" where
  "toLowerChar c =
     (case map_of (zip ''ABCDEFGHIJKLMNOPQRSTUVWXYZ'' ''abcdefghijklmnopqrstuvwxyz'') c of
        None \<Rightarrow> c
      | Some l \<Rightarrow> l)"

definition toLowerCase :: "string \<Rightarrow> string" where
  "toLowerCase s = map toLowerChar s"

text \<open>\<open>a || b\<close> on optional strings: the first operand when it is truthy, else the second.\<close>

definition truthy :: "string option \<Rightarrow> bool" where
  "truthy v = (case v of None \<Rightarrow> False | Some s \<Rightarrow> s \<noteq> [])"

definition or_else :: "string option \<Rightarrow> string option \<Rightarrow> string option" where
  "or_else a b = (if truthy a then a else b)"

definition or_str :: "string option \<Rightarrow> string \<Rightarrow> string" where
  "or_str a d = (case a of None \<Rightarrow> d | Some s \<Rightarrow> if s = [] then d else s)"

section \<open>playwright-fallback.ts: configuration\<close>

definition PLAYWRIGHT_ALLOWLIST :: "string list" where
  "PLAYWRIGHT_ALLOWLIST =
     [''connectcre.com'', ''bizjournals.com'', ''commercialsearch.com'', ''traded.co'']"

definition MAX_RUNS_PER_DOMAIN_PER_DAY :: int where
  "MAX_RUNS_PER_DOMAIN_PER_DAY = 10"

definition CACHE_TTL_MS :: int where
  "CACHE_TTL_MS = 12 * 60 * 60 * 1000"

section \<open>Cloudflare detection\<close>

definition indicators :: "string list" where
  "indicators =
     [''just a moment'', ''checking your browser'', ''cf-browser-verification'',
      ''challenge-platform'', ''cloudflare'', ''cf_clearance'', ''turnstile'', ''ray id'']"

text \<open>\<open>isCloudflareChallenge(body, status?)\<close>; an omitted status is \<open>None\<close>.\<close>

definition isCloudflareChallenge :: "string \<Rightarrow> int option \<Rightarrow> bool" where
  "isCloudflareChallenge body status =
     (if body = [] then False
      else
        let lower = toLowerCase body;
            hasIndicator = list_ex (\<lambda>i. str_includes lower i) indicators;
            isChallengeHTML =
              (str_includes lower ''<!doctype'' \<and>
                (str_includes lower ''just a moment'' \<or>
                 str_includes lower ''checking your browser'' \<or>
                 str_includes lower ''challenge''))
        in hasIndicator \<and> (isChallengeHTML \<or> status = Some 403))"

section \<open>Domain helpers\<close>

text \<open>
  The WHATWG \<open>URL\<close> class belongs to the platform, not to the repository, so it is a
  parameter: \<open>url_parse u\<close> is \<open>None\<close> when \<open>new URL(u)\<close> throws and otherwise gives the
  \<open>hostname\<close> and \<open>origin\<close> of the parsed URL; \<open>url_resolve rel base\<close> is
  \<open>new URL(rel, base).href\<close>.
\<close>

record parsed_url =
  hostname :: string
  origin :: string

record url_api =
  url_parse :: "string \<Rightarrow> parsed_url option"
  url_resolve :: "string \<Rightarrow> string \<Rightarrow> string option"

text \<open>\<open>hostname.replace(/^www\\./, '')\<close>\<close>

definition strip_www :: "string \<Rightarrow> string" where
  "strip_www h = (if prefix ''www.'' h then drop 4 h else h)"

definition getDomain :: "url_api \<Rightarrow> string \<Rightarrow> string" where
  "getDomain api url =
     (case url_parse api url of None \<Rightarrow> [] | Some u \<Rightarrow> strip_www (hostname u))"

definition isAllowlisted :: "url_api \<Rightarrow> string \<Rightarrow> bool" where
  "isAllowlisted api url =
     (let domain = getDomain api url
      in list_ex (\<lambda>allowed. str_includes domain allowed) PLAYWRIGHT_ALLOWLIST)"

section \<open>Persistent stores\<close>

text \<open>
  The three JSON documents under \<open>.playwright-cache\<close> are the fields of one state record,
  each a map from its key to the stored entry. Every load reads the field and every save
  replaces it. The clock is read by the caller and passed in: \<open>now\<close> is \<open>Date.now()\<close> in
  milliseconds and \<open>today\<close> the \<open>YYYY-MM-DD\<close> string of \<open>getTodayString()\<close>.
\<close>

type_synonym cookie = "string \<times> string"

record cookie_entry =
  cookies :: "cookie list"
  savedAt :: int

record cache_entry =
  content :: string
  fetchedAt :: int
  expiresAt :: int

record rate_entry =
  date :: string
  count :: int

record bypass_state =
  cookieStore :: "string \<rightharpoonup> cookie_entry"
  feedCache :: "string \<rightharpoonup> cache_entry"
  rateLimits :: "string \<rightharpoonup> rate_entry"

subsection \<open>Rate limiting\<close>

definition checkRateLimit :: "bypass_state \<Rightarrow> string \<Rightarrow> string \<Rightarrow> bool" where
  "checkRateLimit st today domain =
     (case rateLimits st domain of
        None \<Rightarrow> True
      | Some domainLimit \<Rightarrow>
          if date domainLimit \<noteq> today then True
          else count domainLimit < MAX_RUNS_PER_DOMAIN_PER_DAY)"

definition incrementRateLimit :: "bypass_state \<Rightarrow> string \<Rightarrow> string \<Rightarrow> bypass_state" where
  "incrementRateLimit st today domain =
     (case rateLimits st domain of
        None \<Rightarrow> st\<lparr>rateLimits := (rateLimits st)(domain \<mapsto> \<lparr>date = today, count = 1\<rparr>)\<rparr>
      | Some l \<Rightarrow>
          if date l \<noteq> today
          then st\<lparr>rateLimits := (rateLimits st)(domain \<mapsto> \<lparr>date = today, count = 1\<rparr>)\<rparr>
          else st\<lparr>rateLimits := (rateLimits st)(domain \<mapsto> l\<lparr>count := count l + 1\<rparr>)\<rparr>)"

text \<open>The \<open>used\<close> of \<open>getRateLimitStatus\<close>, and its \<open>{remaining, limit}\<close> result as a pair.\<close>

definition used_today :: "bypass_state \<Rightarrow> string \<Rightarrow> string \<Rightarrow> int" where
  "used_today st today domain =
     (case rateLimits st domain of
        None \<Rightarrow> 0
      | Some domainLimit \<Rightarrow> if date domainLimit = today then count domainLimit else 0)"

definition getRateLimitStatus :: "bypass_state \<Rightarrow> string \<Rightarrow> string \<Rightarrow> int \<times> int" where
  "getRateLimitStatus st today domain =
     (MAX_RUNS_PER_DOMAIN_PER_DAY - used_today st today domain, MAX_RUNS_PER_DOMAIN_PER_DAY)"

subsection \<open>Caching\<close>

definition getCachedContent :: "bypass_state \<Rightarrow> int \<Rightarrow> string \<Rightarrow> string option" where
  "getCachedContent st now url =
     (case feedCache st url of
        None \<Rightarrow> None
      | Some entry \<Rightarrow> if expiresAt entry > now then Some (content entry) else None)"

definition prune_expired :: "(string \<rightharpoonup> cache_entry) \<Rightarrow> int \<Rightarrow> (string \<rightharpoonup> cache_entry)" where
  "prune_expired cache now =
     (\<lambda>key. case cache key of
               None \<Rightarrow> None
             | Some e \<Rightarrow> if expiresAt e < now then None else Some e)"

definition setCachedContent :: "bypass_state \<Rightarrow> int \<Rightarrow> string \<Rightarrow> string \<Rightarrow> bypass_state" where
  "setCachedContent st now url c =
     st\<lparr>feedCache := (prune_expired (feedCache st) now)
           (url \<mapsto> \<lparr>content = c, fetchedAt = now, expiresAt = now + CACHE_TTL_MS\<rparr>)\<rparr>"

section \<open>The browser session\<close>

text \<open>
  Playwright is the environment. One session sees the web through an oracle:
  \<^item> \<open>launch_error\<close>: the message thrown by \<open>getBrowser\<close>, \<open>newContext\<close> or \<open>newPage\<close>, if any;
  \<^item> \<open>goto u\<close>: \<open>None\<close> when \<open>page.goto(u)\<close> resolves, the error message when it rejects;
  \<^item> \<open>page_content u w\<close>: \<open>page.content()\<close> of the page loaded from \<open>u\<close> after \<open>w\<close>
    milliseconds of \<open>waitForTimeout\<close> since the load;
  \<^item> \<open>rss_link u\<close>: the \<open>href\<close> found by \<open>page.evaluate\<close> on the page loaded from \<open>u\<close>;
  \<^item> \<open>context_cookies seed visited\<close>: \<open>context.cookies()\<close> after the context was seeded
    with \<open>seed\<close> and the page was sent to the URLs \<open>visited\<close>, in that order.
\<close>

record browser =
  launch_error :: "string option"
  goto :: "string \<Rightarrow> string option"
  page_content :: "string \<Rightarrow> nat \<Rightarrow> string"
  rss_link :: "string \<Rightarrow> string option"
  context_cookies :: "cookie list \<Rightarrow> string list \<Rightarrow> cookie list"

definition has_feed_marker :: "string \<Rightarrow> bool" where
  "has_feed_marker c =
     (str_includes c ''<?xml'' \<or> str_includes c ''<rss'' \<or> str_includes c ''<feed'')"

text \<open>
  The loop over \<open>alternateUrls\<close>: a rejected navigation is swallowed, the first
  feed-shaped page wins. The result is the new \<open>finalContent\<close> and the URLs navigated to.
\<close>

fun try_alternates :: "browser \<Rightarrow> string list \<Rightarrow> string \<Rightarrow> string list \<Rightarrow> string \<times> string list" where
  "try_alternates b [] finalContent visited = (finalContent, visited)"
| "try_alternates b (altUrl # rest) finalContent visited =
     (case goto b altUrl of
        Some e \<Rightarrow> try_alternates b rest finalContent (visited @ [altUrl])
      | None \<Rightarrow>
          let altContent = page_content b altUrl 0
          in if has_feed_marker altContent then (altContent, visited @ [altUrl])
             else try_alternates b rest finalContent (visited @ [altUrl]))"

definition alternateUrls :: "string \<Rightarrow> string \<Rightarrow> string list" where
  "alternateUrls base_origin url =
     [base_origin @ ''/feed/rss/'', base_origin @ ''/rss.xml'',
      url @ ''?format=xml'', url @ ''&format=xml'']"

text \<open>
  The body of the \<open>try\<close> block up to the cookie save: \<open>Inl msg\<close> when something in it
  throws, else the final content and the URLs navigated to.
\<close>

definition navigate :: "url_api \<Rightarrow> browser \<Rightarrow> string \<Rightarrow> string + (string \<times> string list)" where
  "navigate api b url =
     (case goto b url of
        Some e \<Rightarrow> Inl e
      | None \<Rightarrow>
          let content0 = page_content b url 3000;
              w = (if isCloudflareChallenge content0 None then 13000 else 3000);
              finalContent1 = page_content b url w;
              finalContent2 =
                (if isCloudflareChallenge finalContent1 None
                 then page_content b url (w + 15000) else finalContent1)
          in if has_feed_marker finalContent2 then Inr (finalContent2, [url])
             else
               let followed =
                     (case rss_link b url of
                        None \<Rightarrow> Inr (finalContent2, [url])
                      | Some rssLink \<Rightarrow>
                          if rssLink = [] then Inr (finalContent2, [url])
                          else
                            (case (if startsWith rssLink ''http'' then Some rssLink
                                   else url_resolve api rssLink url) of
                               None \<Rightarrow> Inl ''Invalid URL''
                             | Some rssUrl \<Rightarrow>
                                 (case goto b rssUrl of
                                    Some e \<Rightarrow> Inl e
                                  | None \<Rightarrow> Inr (page_content b rssUrl 2000, [url, rssUrl]))))
               in case followed of
                    Inl e \<Rightarrow> Inl e
                  | Inr (finalContent3, visited) \<Rightarrow>
                      if \<not> str_includes finalContent3 ''<?xml'' \<and> \<not> str_includes finalContent3 ''<rss''
                      then (case url_parse api url of
                              None \<Rightarrow> Inl ''Invalid URL''
                            | Some baseUrl \<Rightarrow>
                                Inr (try_alternates b (alternateUrls (origin baseUrl) url)
                                       finalContent3 visited))
                      else Inr (finalContent3, visited))"

text \<open>\<open>cookieStore[domain]?.cookies || []\<close>\<close>

definition existing_cookies :: "bypass_state \<Rightarrow> string \<Rightarrow> cookie list" where
  "existing_cookies st domain = (case cookieStore st domain of None \<Rightarrow> [] | Some r \<Rightarrow> cookies r)"

text \<open>
  \<open>fetchWithPlaywright\<close>: the cookie store is written at the end of the \<open>try\<close> block; the
  \<open>finally\<close> clause only closes the context. \<open>now\<close> is the \<open>Date.now()\<close> of \<open>savedAt\<close>.
\<close>

definition fetchWithPlaywright ::
  "url_api \<Rightarrow> browser \<Rightarrow> int \<Rightarrow> bypass_state \<Rightarrow> string \<Rightarrow> (string + (string \<times> cookie list)) \<times> bypass_state" where
  "fetchWithPlaywright api b now st url =
     (case launch_error b of
        Some e \<Rightarrow> (Inl e, st)
      | None \<Rightarrow>
          let domain = getDomain api url;
              existingCookies = existing_cookies st domain
          in case navigate api b url of
               Inl e \<Rightarrow> (Inl e, st)
             | Inr (finalContent, visited) \<Rightarrow>
                 let cks = context_cookies b existingCookies visited
                 in (Inr (finalContent, cks),
                     st\<lparr>cookieStore := (cookieStore st)(domain \<mapsto> \<lparr>cookies = cks, savedAt = now\<rparr>)\<rparr>))"

section \<open>playwrightFetchRSS\<close>

text \<open>
  Each failure result of the source carries one fixed message; the constructors stand for
  them, with the interpolated values as arguments:
  \<^item> \<open>NotAllowlisted d\<close>: \<open>Domain d not in Playwright allowlist\<close>;
  \<^item> \<open>NotAChallenge\<close>: \<open>Not a Cloudflare challenge - Playwright not needed\<close>;
  \<^item> \<open>RateLimited d r l\<close>: \<open>Rate limit exceeded for d (r/l remaining today)\<close>;
  \<^item> \<open>ChallengeUnsolved\<close>: \<open>Cloudflare challenge not solved - may need manual intervention\<close>;
  \<^item> \<open>NotAFeed\<close>: \<open>Got HTML response instead of RSS - feed may not exist\<close>;
  \<^item> \<open>SessionError m\<close>: the \<open>err.message\<close> of the \<open>catch\<close> clause.
\<close>

datatype bypass_error =
    NotAllowlisted string
  | NotAChallenge
  | RateLimited string int int
  | ChallengeUnsolved
  | NotAFeed
  | SessionError string

record PlaywrightFetchResult =
  success :: bool
  res_content :: "string option"
  error :: "bypass_error option"
  fromCache :: "bool option"
  usedPlaywright :: "bool option"

record response =
  status :: int
  body :: string

text \<open>
  The clock readings of one invocation: \<open>now_start\<close> for the cache lookup, \<open>today\<close> for the
  three rate-limit helpers (they run back to back, before the first \<open>await\<close>),
  \<open>now_cookies\<close> for \<open>savedAt\<close> and \<open>now_store\<close> for \<open>setCachedContent\<close>.
\<close>

record clock =
  now_start :: int
  today :: string
  now_cookies :: int
  now_store :: int

text \<open>\<open>/<\\?xml[\\s\\S]*$/\<close>: from the first occurrence of the opening text to the end.\<close>

fun from_first :: "string \<Rightarrow> string \<Rightarrow> string option" where
  "from_first pat [] = (if pat = [] then Some [] else None)"
| "from_first pat (c # cs) = (if prefix pat (c # cs) then Some (c # cs) else from_first pat cs)"

text \<open>The longest prefix of the text that ends with the closing text (the greedy star).\<close>

fun upto_last :: "string \<Rightarrow> string \<Rightarrow> string option" where
  "upto_last pat [] = (if pat = [] then Some [] else None)"
| "upto_last pat (c # cs) =
     (case upto_last pat cs of
        Some r \<Rightarrow> Some (c # r)
      | None \<Rightarrow> if prefix pat (c # cs) then Some pat else None)"

text \<open>\<open>/<rss[\\s\\S]*<\\/rss>/\<close> and \<open>/<feed[\\s\\S]*<\\/feed>/\<close>\<close>

definition match_between :: "string \<Rightarrow> string \<Rightarrow> string \<Rightarrow> string option" where
  "match_between opening closing s =
     (case from_first opening s of
        None \<Rightarrow> None
      | Some t \<Rightarrow>
          (case upto_last closing (drop (length opening) t) of
             None \<Rightarrow> None
           | Some r \<Rightarrow> Some (opening @ r)))"

definition extract_xml :: "string \<Rightarrow> string" where
  "extract_xml c =
     (let xmlMatch = from_first ''<?xml'' c;
          rssMatch = match_between ''<rss'' ''</rss>'' c;
          feedMatch = match_between ''<feed'' ''</feed>'' c
      in or_str (or_else (or_else xmlMatch rssMatch) feedMatch) c)"

definition playwrightFetchRSS ::
  "url_api \<Rightarrow> browser \<Rightarrow> clock \<Rightarrow> bypass_state \<Rightarrow> string \<Rightarrow> response option
     \<Rightarrow> PlaywrightFetchResult \<times> bypass_state" where
  "playwrightFetchRSS api b clk st url originalResponse =
     (let domain = getDomain api url in
      if \<not> isAllowlisted api url then
        (\<lparr>success = False, res_content = None, error = Some (NotAllowlisted domain),
          fromCache = None, usedPlaywright = None\<rparr>, st)
      else if (case originalResponse of
                 None \<Rightarrow> False
               | Some r \<Rightarrow> \<not> isCloudflareChallenge (body r) (Some (status r))) then
        (\<lparr>success = False, res_content = None, error = Some NotAChallenge,
          fromCache = None, usedPlaywright = None\<rparr>, st)
      else
        let cached = getCachedContent st (now_start clk) url in
        if truthy cached then
          (\<lparr>success = True, res_content = cached, error = None,
            fromCache = Some True, usedPlaywright = Some False\<rparr>, st)
        else
          let rateStatus = getRateLimitStatus st (today clk) domain in
          if \<not> checkRateLimit st (today clk) domain then
            (\<lparr>success = False, res_content = None,
              error = Some (RateLimited domain (fst rateStatus) (snd rateStatus)),
              fromCache = None, usedPlaywright = None\<rparr>, st)
          else
            let st1 = incrementRateLimit st (today clk) domain
            in case fetchWithPlaywright api b (now_cookies clk) st1 url of
                 (Inl msg, st2) \<Rightarrow>
                   (\<lparr>success = False, res_content = None, error = Some (SessionError msg),
                     fromCache = None, usedPlaywright = Some True\<rparr>, st2)
               | (Inr (c, cks), st2) \<Rightarrow>
                   if has_feed_marker c then
                     (let xmlContent = extract_xml c
                      in (\<lparr>success = True, res_content = Some xmlContent, error = None,
                           fromCache = Some False, usedPlaywright = Some True\<rparr>,
                          setCachedContent st2 (now_store clk) url xmlContent))
                   else if isCloudflareChallenge c None then
                     (\<lparr>success = False, res_content = None, error = Some ChallengeUnsolved,
                       fromCache = None, usedPlaywright = Some True\<rparr>, st2)
                   else
                     (\<lparr>success = False, res_content = None, error = Some NotAFeed,
                       fromCache = None, usedPlaywright = Some True\<rparr>, st2))"

section \<open>fetcher-integration.ts: the circuit breaker around the pipeline\<close>

text \<open>
  \<open>types/index.ts\<close>, \<open>config.ts\<close> and \<open>pipeline.ts\<close> are imported by the module. The records
  below carry the fields that the module reads or writes. \<open>processFeedsFullPipeline\<close> is a
  parameter of the model: it receives the list of feeds and nothing else, exactly as in
  the call, and the feeds handed to it are the sources the run fetches over the network.
  A \<open>pipelineResult.error\<close> is represented by its \<open>message\<close>.
\<close>

record NormalizedItem =
  item_id :: string
  title :: string
  link :: string
  pubDate :: "string option"
  fetchedAt :: "string option"

record FeedConfig =
  feed_name :: string
  feed_url :: string
  enabled :: "bool option"

record PipelineResult =
  feed :: FeedConfig
  articles :: "NormalizedItem list option"
  pr_error :: "string option"
  rawCount :: "int option"

record CircuitBreakerState =
  failureCount :: int
  blockedUntil :: int
  lastError :: "string option"
  last403Preview :: "string option"

record FeedStat =
  lastFetch :: string
  lastSuccess :: "string option"
  fs_lastError :: "string option"
  itemsFetched :: int

datatype fetch_status = Ok | Error

record FetchMeta =
  meta_feed :: string
  fetchedRaw :: int
  kept :: int
  filteredOut :: int
  durationMs :: int

record FetchResult =
  fr_status :: fetch_status
  fr_articles :: "NormalizedItem list"
  meta :: FetchMeta
  fr_error :: "string option"

record fetcher_state =
  circuitBreaker :: "string \<rightharpoonup> CircuitBreakerState"
  itemStore :: "string \<rightharpoonup> NormalizedItem"
  feedStats :: "string \<rightharpoonup> FeedStat"

text \<open>
  The clock of one run: \<open>startTime\<close>, the \<open>Date.now()\<close> read inside the loop and the
  \<open>new Date().toISOString()\<close> written to the feed statistics.
\<close>

record fetch_clock =
  startTime :: int
  fc_now :: int
  fc_iso :: string

definition BLOCKED_COOLDOWN_MS :: int where
  "BLOCKED_COOLDOWN_MS = 24 * 60 * 60 * 1000"

definition MAX_FAILURES_BEFORE_BLOCK :: int where
  "MAX_FAILURES_BEFORE_BLOCK = 3"

text \<open>The feeds passed to \<open>processFeedsFullPipeline\<close>: \<open>RSS_FEEDS.filter(f => f.enabled !== false)\<close>.\<close>

definition enabled_feeds :: "FeedConfig list \<Rightarrow> FeedConfig list" where
  "enabled_feeds feeds = filter (\<lambda>f. enabled f \<noteq> Some False) feeds"

text \<open>One iteration of \<open>for (const article of articles)\<close>.\<close>

definition store_article ::
  "fetch_clock \<Rightarrow> string \<Rightarrow> int \<Rightarrow> fetcher_state \<Rightarrow> NormalizedItem \<Rightarrow> fetcher_state" where
  "store_article clk url n st article =
     st\<lparr>itemStore := (itemStore st)(item_id article \<mapsto> article),
        circuitBreaker :=
          (case circuitBreaker st url of
             None \<Rightarrow> circuitBreaker st
           | Some cb \<Rightarrow> (circuitBreaker st)(url \<mapsto> cb\<lparr>failureCount := 0, blockedUntil := 0\<rparr>)),
        feedStats := (feedStats st)(url \<mapsto>
          \<lparr>lastFetch = fc_iso clk, lastSuccess = Some (fc_iso clk), fs_lastError = None,
           itemsFetched = n\<rparr>)\<rparr>"

text \<open>The body of \<open>if (pipelineResult.error)\<close>.\<close>

definition record_failure ::
  "fetch_clock \<Rightarrow> string \<Rightarrow> string \<Rightarrow> fetcher_state \<Rightarrow> fetcher_state" where
  "record_failure clk url msg st =
     (let cb0 = (case circuitBreaker st url of
                   None \<Rightarrow> \<lparr>failureCount = 0, blockedUntil = 0, lastError = None,
                             last403Preview = None\<rparr>
                 | Some cb \<Rightarrow> cb);
          cb1 = cb0\<lparr>failureCount := failureCount cb0 + 1, lastError := Some msg\<rparr>;
          cb2 = (if failureCount cb1 \<ge> MAX_FAILURES_BEFORE_BLOCK
                 then cb1\<lparr>blockedUntil := fc_now clk + BLOCKED_COOLDOWN_MS\<rparr> else cb1)
      in st\<lparr>circuitBreaker := (circuitBreaker st)(url \<mapsto> cb2),
            feedStats := (feedStats st)(url \<mapsto>
              \<lparr>lastFetch = fc_iso clk, lastSuccess = None, fs_lastError = Some msg,
               itemsFetched = 0\<rparr>)\<rparr>)"

text \<open>One iteration of \<open>for (const pipelineResult of pipelineResults)\<close>.\<close>

definition process_result ::
  "fetch_clock \<Rightarrow> fetcher_state \<Rightarrow> PipelineResult \<Rightarrow> FetchResult \<times> fetcher_state" where
  "process_result clk st pipelineResult =
     (let feedName = feed_name (feed pipelineResult);
          url = feed_url (feed pipelineResult);
          arts = (case articles pipelineResult of None \<Rightarrow> [] | Some xs \<Rightarrow> xs);
          st1 = fold (\<lambda>article s. store_article clk url (int (length arts)) s article) arts st;
          st2 = (case pr_error pipelineResult of
                   None \<Rightarrow> st1
                 | Some msg \<Rightarrow> record_failure clk url msg st1);
          raw = (case rawCount pipelineResult of None \<Rightarrow> 0 | Some r \<Rightarrow> r);
          result =
            \<lparr>fr_status = (case pr_error pipelineResult of None \<Rightarrow> Ok | Some e \<Rightarrow> Error),
             fr_articles = arts,
             meta = \<lparr>meta_feed = feedName, fetchedRaw = raw, kept = int (length arts),
                     filteredOut = raw - int (length arts),
                     durationMs = fc_now clk - startTime clk\<rparr>,
             fr_error = pr_error pipelineResult\<rparr>
      in (result, st2))"

fun process_results ::
  "fetch_clock \<Rightarrow> fetcher_state \<Rightarrow> PipelineResult list \<Rightarrow> FetchResult list \<times> fetcher_state" where
  "process_results clk st [] = ([], st)"
| "process_results clk st (r # rs) =
     (let (res, st1) = process_result clk st r;
          (ress, st2) = process_results clk st1 rs
      in (res # ress, st2))"

text \<open>
  \<open>fetchAllRSSArticles\<close> up to the point where \<open>results\<close> is complete. The archive call and
  the \<open>lastFetchInfo\<close> summary that follow read the results and the item store only.
\<close>

definition fetchAllRSSArticles ::
  "(FeedConfig list \<Rightarrow> PipelineResult list) \<Rightarrow> fetch_clock \<Rightarrow> FeedConfig list
     \<Rightarrow> NormalizedItem list \<Rightarrow> fetcher_state \<Rightarrow> FetchResult list \<times> fetcher_state" where
  "fetchAllRSSArticles processFeedsFullPipeline clk RSS_FEEDS manualArticles st =
     (let pipelineResults = processFeedsFullPipeline (enabled_feeds RSS_FEEDS);
          (results, st1) = process_results clk st pipelineResults;
          results1 =
            (if manualArticles \<noteq> [] then
               \<lparr>fr_status = Ok, fr_articles = manualArticles,
                meta = \<lparr>meta_feed = ''Manual Articles'',
                        fetchedRaw = int (length manualArticles),
                        kept = int (length manualArticles), filteredOut = 0, durationMs = 0\<rparr>,
                fr_error = None\<rparr> # results
             else results)
      in (results1, st1))"

text \<open>\<open>getBlockedFeeds\<close> lists the sources whose breaker is open; this is its test.\<close>

definition is_blocked :: "fetcher_state \<Rightarrow> int \<Rightarrow> string \<Rightarrow> bool" where
  "is_blocked st now url =
     (case circuitBreaker st url of None \<Rightarrow> False | Some s \<Rightarrow> blockedUntil s > now)"

section \<open>transformArticle\<close>

text \<open>
  The input is a JSON object; an absent property is \<open>None\<close>. \<open>author\<close> is either a string or
  an object with an optional \<open>name\<close>. The two impure expressions of the function are
  parameters: \<open>random_string\<close> is the value of \<open>Math.random().toString()\<close> and \<open>iso_now\<close>
  the value of \<open>new Date().toISOString()\<close> at the call.
\<close>

datatype author_field = AuthorString string | AuthorObject "string option"

record raw_item =
  r_id :: "string option"
  r_url :: "string option"
  r_link :: "string option"
  r_date_published :: "string option"
  r_pubDate :: "string option"
  r_content_text :: "string option"
  r_content_html :: "string option"
  r_description :: "string option"
  r_source :: "string option"
  r_publisher :: "string option"
  r_author :: "author_field option"
  r_tags :: "string list option"
  r_title :: "string option"

record js_env =
  random_string :: string
  iso_now :: string

text \<open>
  The result object: \<open>spread\<close> is \<open>...item\<close>, which keeps every property the literal does
  not overwrite; the other fields are the properties that the literal sets.
\<close>

record article =
  spread :: raw_item
  a_link :: string
  a_pubDate :: string
  a_description :: string
  a_source :: string
  a_author :: "string option"
  a_category :: string
  a_id :: string

definition authorName :: "raw_item \<Rightarrow> string" where
  "authorName item =
     (case r_author item of
        None \<Rightarrow> []
      | Some (AuthorString s) \<Rightarrow> s
      | Some (AuthorObject n) \<Rightarrow> or_str n [])"

definition category_of :: "raw_item \<Rightarrow> string" where
  "category_of item =
     (let firstTag = (case r_tags item of
                        None \<Rightarrow> []
                      | Some [] \<Rightarrow> []
                      | Some (t # ts) \<Rightarrow> t);
          tagLower = toLowerCase firstTag
      in if str_includes tagLower ''transaction'' then ''transaction''
         else if str_includes tagLower ''availab'' then ''availabilities''
         else if str_includes tagLower ''people'' then ''people''
         else ''relevant'')"

definition transformArticle :: "js_env \<Rightarrow> raw_item \<Rightarrow> article" where
  "transformArticle env item =
     \<lparr>spread = item,
      a_link = or_str (or_else (r_url item) (r_link item)) [],
      a_pubDate = or_str (or_else (r_date_published item) (r_pubDate item)) (iso_now env),
      a_description =
        or_str (or_else (or_else (r_content_text item) (r_content_html item)) (r_description item)) [],
      a_source =
        or_str (or_else (or_else (r_source item) (r_publisher item)) (Some (authorName item)))
          ''Unknown'',
      a_author = (if authorName item = [] then None else Some (authorName item)),
      a_category = category_of item,
      a_id = or_str (or_else (r_id item) (r_link item)) (random_string env)\<rparr>"

section \<open>buildStaticRSS: merging fresh articles into the published feed\<close>

text \<open>
  The steps of \<open>buildStaticRSS\<close> between loading \<open>feed.json\<close> and the 30-day cleanup.
  \<open>shouldRejectUrl\<close> and \<open>isAllowedLink\<close> are imported from the fetcher and are parameters.
\<close>

definition allItems :: "FetchResult list \<Rightarrow> NormalizedItem list" where
  "allItems results = concat (map fr_articles (filter (\<lambda>r. fr_status r = Ok) results))"

definition filteredNewItems ::
  "(string \<Rightarrow> bool) \<Rightarrow> (string \<Rightarrow> bool) \<Rightarrow> NormalizedItem list \<Rightarrow> NormalizedItem list" where
  "filteredNewItems shouldRejectUrl isAllowedLink items =
     filter (\<lambda>item. if link item = [] \<or> title item = [] then False
                     else if shouldRejectUrl (link item) then False
                     else isAllowedLink (link item)) items"

definition existingGuids :: "NormalizedItem list \<Rightarrow> string set" where
  "existingGuids existingArticles = set (map item_id existingArticles)"

definition newItems :: "NormalizedItem list \<Rightarrow> NormalizedItem list \<Rightarrow> NormalizedItem list" where
  "newItems existingArticles fresh =
     filter (\<lambda>item. item_id item \<notin> existingGuids existingArticles) fresh"

definition mergedArticles :: "NormalizedItem list \<Rightarrow> NormalizedItem list \<Rightarrow> NormalizedItem list" where
  "mergedArticles existingArticles fresh = newItems existingArticles fresh @ existingArticles"

section \<open>Specification-side notions and concrete inputs\<close>






text \<open>
  Concrete inputs for the evaluations below. \<open>fixture_api\<close> tabulates what \<open>new URL\<close> yields
  on the URLs that occur in them.
\<close>

definition fixture_api :: url_api where
  "fixture_api =
     \<lparr>url_parse = map_of
        [(''https://www.connectcre.com/feed/'',
            \<lparr>hostname = ''www.connectcre.com'', origin = ''https://www.connectcre.com''\<rparr>),
         (''https://notconnectcre.com.example.org/rss'',
            \<lparr>hostname = ''notconnectcre.com.example.org'',
             origin = ''https://notconnectcre.com.example.org''\<rparr>),
         (''https://example.org/feed'',
            \<lparr>hostname = ''example.org'', origin = ''https://example.org''\<rparr>)],
      url_resolve = (\<lambda>rel base. None)\<rparr>"

definition empty_state :: bypass_state where
  "empty_state = \<lparr>cookieStore = Map.empty, feedCache = Map.empty, rateLimits = Map.empty\<rparr>"

text \<open>A browser whose every navigation is rejected, although the context holds a cookie.\<close>

definition browser_down :: browser where
  "browser_down =
     \<lparr>launch_error = None,
      goto = (\<lambda>u. Some ''net::ERR_CONNECTION_TIMED_OUT''),
      page_content = (\<lambda>u w. []),
      rss_link = (\<lambda>u. None),
      context_cookies = (\<lambda>seed visited. [(''cf_clearance'', ''token'')])\<rparr>"

definition clock_at :: "int \<Rightarrow> string \<Rightarrow> clock" where
  "clock_at t d = \<lparr>now_start = t, today = d, now_cookies = t + 30000, now_store = t + 30000\<rparr>"

text \<open>Three articles: a published one, a fresh one with the same identifier, and a new one.\<close>

definition story_old :: NormalizedItem where
  "story_old = \<lparr>item_id = ''guid-1'', title = ''Warehouse sold'', link = ''https://x.com/a'',
                 pubDate = Some ''2025-01-10T00:00:00.000Z'', fetchedAt = None\<rparr>"

definition story_update :: NormalizedItem where
  "story_update = \<lparr>item_id = ''guid-1'', title = ''Warehouse sold (updated)'', link = ''https://x.com/a'',
                    pubDate = Some ''2025-01-14T00:00:00.000Z'', fetchedAt = None\<rparr>"

definition story_new :: NormalizedItem where
  "story_new = \<lparr>item_id = ''guid-2'', title = ''Port lease signed'', link = ''https://x.com/b'',
                 pubDate = Some ''2025-01-14T00:00:00.000Z'', fetchedAt = None\<rparr>"

text \<open>
  A client of the bypass subsystem issues invocations one after the other (the
  specification forbids concurrent invocations for one domain). An invocation is the
  arguments of \<open>playwrightFetchRSS\<close> together with the clock and the browser it meets.
\<close>

record call =
  c_url :: string
  c_response :: "response option"
  c_browser :: browser
  c_clock :: clock

fun run_calls ::
  "url_api \<Rightarrow> bypass_state \<Rightarrow> call list \<Rightarrow> PlaywrightFetchResult list \<times> bypass_state" where
  "run_calls api st [] = ([], st)"
| "run_calls api st (c # cs) =
     (let (r, st1) = playwrightFetchRSS api (c_browser c) (c_clock c) st (c_url c) (c_response c);
          (rs, st2) = run_calls api st1 cs
      in (r # rs, st2))"

text \<open>
  A result reports a browser session by \<open>usedPlaywright: true\<close>. \<open>sessions_for\<close> counts the
  sessions that a run started for one domain.
\<close>

definition sessions_for ::
  "url_api \<Rightarrow> string \<Rightarrow> call list \<Rightarrow> PlaywrightFetchResult list \<Rightarrow> nat" where
  "sessions_for api d calls results =
     length (filter (\<lambda>(c, r). getDomain api (c_url c) = d \<and> usedPlaywright r = Some True)
               (zip calls results))"

text \<open>Every stored counter is within the daily quota.\<close>

definition within_quota :: "bypass_state \<Rightarrow> bool" where
  "within_quota st = (\<forall>k r. rateLimits st k = Some r \<longrightarrow> count r \<le> MAX_RUNS_PER_DOMAIN_PER_DAY)"

text \<open>The challenge confirmation lets the invocation through.\<close>

definition confirmed :: "response option \<Rightarrow> bool" where
  "confirmed originalResponse =
     (case originalResponse of
        None \<Rightarrow> True
      | Some r \<Rightarrow> isCloudflareChallenge (body r) (Some (status r)))"

definition bypass_call :: call where
  "bypass_call =
     \<lparr>c_url = ''https://www.connectcre.com/feed/'', c_response = None,
      c_browser = browser_down, c_clock = clock_at 1000 ''2025-01-15''\<rparr>"

text \<open>
  A browser that serves a feed at every URL, and one that serves a plain HTML page with
  no feed link at every URL; both hold cookies in the context.
\<close>

definition browser_feed :: browser where
  "browser_feed =
     \<lparr>launch_error = None,
      goto = (\<lambda>u. None),
      page_content = (\<lambda>u w. ''<rss><channel></channel></rss>''),
      rss_link = (\<lambda>u. None),
      context_cookies = (\<lambda>seed visited. [(''cf_clearance'', ''token'')])\<rparr>"

definition browser_html :: browser where
  "browser_html =
     \<lparr>launch_error = None,
      goto = (\<lambda>u. None),
      page_content = (\<lambda>u w. ''<html><body>News</body></html>''),
      rss_link = (\<lambda>u. None),
      context_cookies = (\<lambda>seed visited. [(''cf_clearance'', ''token'')])\<rparr>"

text \<open>The stores after one successful bypass of the feed URL, started at time 1000.\<close>

definition state_after_fetch :: bypass_state where
  "state_after_fetch =
     snd (playwrightFetchRSS fixture_api browser_feed (clock_at 1000 ''2025-01-15'') empty_state
            ''https://www.connectcre.com/feed/'' None)"

text \<open>
  One enabled source and three pipelines: one that fails for every feed it is given, one
  that fetches nothing wrong and finds no article, and one that returns an article for
  every feed it is given.
\<close>

definition source_feed :: FeedConfig where
  "source_feed =
     \<lparr>feed_name = ''ConnectCRE'', feed_url = ''https://www.connectcre.com/feed/'',
      enabled = Some True\<rparr>"

definition failing_pipeline :: "FeedConfig list \<Rightarrow> PipelineResult list" where
  "failing_pipeline feeds =
     map (\<lambda>f. \<lparr>feed = f, articles = None, pr_error = Some ''HTTP 503'', rawCount = None\<rparr>) feeds"

definition quiet_pipeline :: "FeedConfig list \<Rightarrow> PipelineResult list" where
  "quiet_pipeline feeds =
     map (\<lambda>f. \<lparr>feed = f, articles = Some [], pr_error = None, rawCount = Some 0\<rparr>) feeds"

definition serving_pipeline :: "FeedConfig list \<Rightarrow> PipelineResult list" where
  "serving_pipeline feeds =
     map (\<lambda>f. \<lparr>feed = f, articles = Some [story_new], pr_error = None, rawCount = Some 1\<rparr>) feeds"

definition run_clock :: "int \<Rightarrow> fetch_clock" where
  "run_clock t = \<lparr>startTime = t, fc_now = t + 500, fc_iso = ''2025-01-15T08:00:00.000Z''\<rparr>"

definition fresh_fetcher :: fetcher_state where
  "fresh_fetcher = \<lparr>circuitBreaker = Map.empty, itemStore = Map.empty, feedStats = Map.empty\<rparr>"

text \<open>The fetcher after two, and after three, consecutive failing runs one minute apart.\<close>

definition after_two_failures :: fetcher_state where
  "after_two_failures =
     snd (fetchAllRSSArticles failing_pipeline (run_clock 60000) [source_feed] []
       (snd (fetchAllRSSArticles failing_pipeline (run_clock 0) [source_feed] [] fresh_fetcher)))"

definition after_three_failures :: fetcher_state where
  "after_three_failures =
     snd (fetchAllRSSArticles failing_pipeline (run_clock 120000) [source_feed] [] after_two_failures)"

text \<open>A feed entry with a \<open>url\<close> and a title but neither \<open>id\<close> nor \<open>link\<close>, and one with an \<open>id\<close>.\<close>

definition entry_without_id :: raw_item where
  "entry_without_id =
     \<lparr>r_id = None, r_url = Some ''https://x.com/a'', r_link = None,
      r_date_published = Some ''2025-01-14T00:00:00.000Z'', r_pubDate = None,
      r_content_text = Some ''A warehouse was sold.'', r_content_html = None, r_description = None,
      r_source = Some ''ConnectCRE'', r_publisher = None, r_author = None,
      r_tags = Some [''TRANSACTIONS''], r_title = Some ''Warehouse sold''\<rparr>"

definition entry_with_id :: raw_item where
  "entry_with_id = entry_without_id\<lparr>r_id := Some ''guid-1''\<rparr>"

definition first_run :: js_env where
  "first_run = \<lparr>random_string = ''0.1373'', iso_now = ''2025-01-15T08:00:00.000Z''\<rparr>"

definition second_run :: js_env where
  "second_run = \<lparr>random_string = ''0.9021'', iso_now = ''2025-01-16T08:00:00.000Z''\<rparr>"

text \<open>A feed entry with an \<open>id\<close> but no date.\<close>

definition entry_without_date :: raw_item where
  "entry_without_date = entry_with_id\<lparr>r_date_published := None\<rparr>"


subsection \<open>The fetch stage of the specification\<close>

text \<open>
  Modelled from the spec: the Source Fetch Stage with its circuit breaker (section 4.1;
  \<open>parseSourceFeed\<close> of \<open>pipeline.ts\<close>, which is not among the sources). The direct
  retrieval and the feed parser are parameters. The outcome of the direct retrieval is a
  network error or a response.
\<close>

datatype retrieval = NetworkError string | Responded response









definition forbidden_source :: "string \<Rightarrow> retrieval" where
  "forbidden_source u = Responded \<lparr>status = 403, body = ''<html>Forbidden</html>''\<rparr>"



section \<open>Challenge detection\<close>



















section \<open>The allowlist\<close>

lemma isAllowlisted_iff:
  "isAllowlisted api url \<longleftrightarrow>
     (\<exists>u. url_parse api url = Some u \<and>
          (\<exists>allowed \<in> set PLAYWRIGHT_ALLOWLIST. str_includes (strip_www (hostname u)) allowed))"
  by (auto simp: isAllowlisted_def getDomain_def list_ex_iff str_includes_def
        PLAYWRIGHT_ALLOWLIST_def split: option.splits)

lemma not_allowlisted_error:
  "isAllowlisted api url \<Longrightarrow>
     error (fst (playwrightFetchRSS api b clk st url orig)) \<noteq> Some (NotAllowlisted d)"
  by (simp add: playwrightFetchRSS_def Let_def split: prod.splits sum.splits option.splits)

text \<open>
  C9. \<open>isAllowlisted\<close> is a substring test: it holds exactly when the URL parses and its
  hostname, after a leading \<open>www.\<close> is removed, contains an allowlisted domain. Hence any
  hostname that embeds an allowlisted domain anywhere passes, and \<open>playwrightFetchRSS\<close>
  does not reject it as not allowlisted.
\<close>

theorem C9_allowlist_substring:
  "(isAllowlisted api url \<longleftrightarrow>
      (\<exists>u. url_parse api url = Some u \<and>
           (\<exists>allowed \<in> set PLAYWRIGHT_ALLOWLIST. str_includes (strip_www (hostname u)) allowed))) \<and>
   (\<forall>u allowed pre post.
      url_parse api url = Some u \<and> allowed \<in> set PLAYWRIGHT_ALLOWLIST \<and>
      strip_www (hostname u) = pre @ allowed @ post \<longrightarrow>
        isAllowlisted api url \<and>
        error (fst (playwrightFetchRSS api b clk st url orig)) \<noteq> Some (NotAllowlisted (getDomain api url)))"
proof -
  have "isAllowlisted api url"
    if "url_parse api url = Some u" "allowed \<in> set PLAYWRIGHT_ALLOWLIST"
       "strip_www (hostname u) = pre @ allowed @ post" for u allowed pre post
    using that by (auto simp: isAllowlisted_iff str_includes_def sublist_def)
  then show ?thesis
    using isAllowlisted_iff [of api url] not_allowlisted_error [of api url b clk st orig]
    by blast
qed

theorem C9_allowlist_substring_witness:
  "url_parse fixture_api ''https://notconnectcre.com.example.org/rss'' =
     Some \<lparr>hostname = ''notconnectcre.com.example.org'',
           origin = ''https://notconnectcre.com.example.org''\<rparr> \<and>
   ''connectcre.com'' \<in> set PLAYWRIGHT_ALLOWLIST \<and>
   strip_www ''notconnectcre.com.example.org'' = ''not'' @ ''connectcre.com'' @ ''.example.org'' \<and>
   isAllowlisted fixture_api ''https://notconnectcre.com.example.org/rss'' \<and>
   \<not> isAllowlisted fixture_api ''https://example.org/feed''"
  using C9_allowlist_substring [of fixture_api "''https://notconnectcre.com.example.org/rss''"
      browser_down "clock_at 0 ''2025-01-15''" empty_state None]
    C9_allowlist_substring [of fixture_api "''https://example.org/feed''"
      browser_down "clock_at 0 ''2025-01-15''" empty_state None]
  by (simp add: fixture_api_def PLAYWRIGHT_ALLOWLIST_def strip_www_def str_includes_def sublist_code)

section \<open>Calls without a triggering response\<close>

lemma never_not_a_challenge:
  "error (fst (playwrightFetchRSS api b clk st url None)) \<noteq> Some NotAChallenge"
  by (simp add: playwrightFetchRSS_def Let_def split: prod.splits sum.splits option.splits)

lemma no_response_same_as_challenge:
  "isCloudflareChallenge (body r) (Some (status r)) \<Longrightarrow>
     playwrightFetchRSS api b clk st url None = playwrightFetchRSS api b clk st url (Some r)"
  by (simp add: playwrightFetchRSS_def Let_def)

lemma no_response_steps:
  assumes "isAllowlisted api url"
  shows "(truthy (getCachedContent st (now_start clk) url) \<longrightarrow>
            playwrightFetchRSS api b clk st url None =
              (\<lparr>success = True, res_content = getCachedContent st (now_start clk) url, error = None,
                fromCache = Some True, usedPlaywright = Some False\<rparr>, st)) \<and>
         (\<not> truthy (getCachedContent st (now_start clk) url) \<and>
            \<not> checkRateLimit st (today clk) (getDomain api url) \<longrightarrow>
            playwrightFetchRSS api b clk st url None =
              (\<lparr>success = False, res_content = None,
                error = Some (RateLimited (getDomain api url)
                   (MAX_RUNS_PER_DOMAIN_PER_DAY - used_today st (today clk) (getDomain api url))
                   MAX_RUNS_PER_DOMAIN_PER_DAY),
                fromCache = None, usedPlaywright = None\<rparr>, st)) \<and>
         (\<not> truthy (getCachedContent st (now_start clk) url) \<and>
            checkRateLimit st (today clk) (getDomain api url) \<longrightarrow>
            usedPlaywright (fst (playwrightFetchRSS api b clk st url None)) = Some True)"
  using assms
  by (simp add: playwrightFetchRSS_def Let_def getRateLimitStatus_def
        split: prod.splits sum.splits option.splits)


text \<open>
  C10. Without an \<open>originalResponse\<close> the challenge confirmation is skipped: for an
  allowlisted URL the call is never rejected as not being a challenge, it behaves as a
  call carrying a confirmed challenge would, and it goes on to the cache lookup, the
  rate-limit check and the browser session.
\<close>

theorem C10_no_response_skips_confirmation:
  assumes "isAllowlisted api url"
  shows "error (fst (playwrightFetchRSS api b clk st url None)) \<noteq> Some NotAChallenge \<and>
         (\<forall>r. isCloudflareChallenge (body r) (Some (status r)) \<longrightarrow>
              playwrightFetchRSS api b clk st url None = playwrightFetchRSS api b clk st url (Some r)) \<and>
         (truthy (getCachedContent st (now_start clk) url) \<longrightarrow>
            playwrightFetchRSS api b clk st url None =
              (\<lparr>success = True, res_content = getCachedContent st (now_start clk) url, error = None,
                fromCache = Some True, usedPlaywright = Some False\<rparr>, st)) \<and>
         (\<not> truthy (getCachedContent st (now_start clk) url) \<and>
            \<not> checkRateLimit st (today clk) (getDomain api url) \<longrightarrow>
            playwrightFetchRSS api b clk st url None =
              (\<lparr>success = False, res_content = None,
                error = Some (RateLimited (getDomain api url)
                   (MAX_RUNS_PER_DOMAIN_PER_DAY - used_today st (today clk) (getDomain api url))
                   MAX_RUNS_PER_DOMAIN_PER_DAY),
                fromCache = None, usedPlaywright = None\<rparr>, st)) \<and>
         (\<not> truthy (getCachedContent st (now_start clk) url) \<and>
            checkRateLimit st (today clk) (getDomain api url) \<longrightarrow>
            usedPlaywright (fst (playwrightFetchRSS api b clk st url None)) = Some True)"
  using never_not_a_challenge [of api b clk st url] no_response_same_as_challenge [of _ api b clk st url]
    no_response_steps [OF assms, of st clk b]
  by blast

theorem C10_no_response_skips_confirmation_witness:
  "isAllowlisted fixture_api ''https://www.connectcre.com/feed/'' \<and>
   \<not> truthy (getCachedContent empty_state 1000 ''https://www.connectcre.com/feed/'') \<and>
   checkRateLimit empty_state ''2025-01-15'' ''connectcre.com'' \<and>
   usedPlaywright (fst (playwrightFetchRSS fixture_api browser_down (clock_at 1000 ''2025-01-15'')
      empty_state ''https://www.connectcre.com/feed/'' None)) = Some True"
  using C10_no_response_skips_confirmation [of fixture_api "''https://www.connectcre.com/feed/''"
      browser_down "clock_at 1000 ''2025-01-15''" empty_state]
  by (simp add: isAllowlisted_def getDomain_def fixture_api_def strip_www_def
        PLAYWRIGHT_ALLOWLIST_def str_includes_def sublist_code getCachedContent_def empty_state_def
        checkRateLimit_def truthy_def clock_at_def)

section \<open>Deduplication against the published feed\<close>

lemma merged_known_part:
  "filter (\<lambda>a. item_id a \<in> existingGuids existing) (mergedArticles existing fresh) = existing"
proof -
  have "filter (\<lambda>a. item_id a \<in> existingGuids existing) (newItems existing fresh) = []"
    by (simp add: newItems_def)
  moreover have "filter (\<lambda>a. item_id a \<in> existingGuids existing) existing = existing"
    by (simp add: existingGuids_def)
  ultimately show ?thesis by (simp add: mergedArticles_def)
qed

text \<open>
  C8. Deduplication against the known identifiers is a set difference: the fresh
  articles kept are exactly those whose identifier is not known, a fresh article with a
  known identifier is dropped, and the published articles appear in the merged list
  unchanged, so nothing is merged into them.
\<close>

theorem C8_dedup_set_difference:
  "newItems existing fresh = filter (\<lambda>a. item_id a \<notin> existingGuids existing) fresh \<and>
   set (newItems existing fresh) = set fresh - {a. item_id a \<in> existingGuids existing} \<and>
   (\<forall>a \<in> set fresh. item_id a \<in> existingGuids existing \<longrightarrow> a \<notin> set (newItems existing fresh)) \<and>
   mergedArticles existing fresh = newItems existing fresh @ existing \<and>
   filter (\<lambda>a. item_id a \<in> existingGuids existing) (mergedArticles existing fresh) = existing"
  using merged_known_part [of existing fresh]
  by (auto simp: newItems_def mergedArticles_def)

theorem C8_dedup_set_difference_witness:
  "existingGuids [story_old] = {''guid-1''} \<and>
   story_update \<in> set [story_update, story_new] \<and> item_id story_update \<in> existingGuids [story_old] \<and>
   newItems [story_old] [story_update, story_new] = [story_new] \<and>
   mergedArticles [story_old] [story_update, story_new] = [story_new, story_old]"
  using C8_dedup_set_difference [of "[story_old]" "[story_update, story_new]"]
  by (simp add: existingGuids_def newItems_def mergedArticles_def story_old_def story_update_def story_new_def)

section \<open>The daily quota\<close>

lemma fetchWithPlaywright_rateLimits:
  "rateLimits (snd (fetchWithPlaywright api b now st url)) = rateLimits st"
  by (simp add: fetchWithPlaywright_def Let_def split: option.splits sum.splits prod.splits)

lemma setCachedContent_rateLimits:
  "rateLimits (setCachedContent st now url c) = rateLimits st"
  by (simp add: setCachedContent_def)

lemma session_rateLimits:
  "rateLimits (snd (playwrightFetchRSS api b clk st url orig)) =
     (if usedPlaywright (fst (playwrightFetchRSS api b clk st url orig)) = Some True
      then rateLimits (incrementRateLimit st (today clk) (getDomain api url))
      else rateLimits st)"
proof -
  obtain out s2 where f: "fetchWithPlaywright api b (now_cookies clk)
      (incrementRateLimit st (today clk) (getDomain api url)) url = (out, s2)"
    by (cases "fetchWithPlaywright api b (now_cookies clk)
      (incrementRateLimit st (today clk) (getDomain api url)) url")
  have "rateLimits s2 = rateLimits (incrementRateLimit st (today clk) (getDomain api url))"
    using fetchWithPlaywright_rateLimits [of api b "now_cookies clk"
        "incrementRateLimit st (today clk) (getDomain api url)" url] f by simp
  then show ?thesis
    using f
    by (simp add: playwrightFetchRSS_def Let_def setCachedContent_rateLimits
          split: sum.splits prod.splits)
qed

lemma session_needs_quota:
  "usedPlaywright (fst (playwrightFetchRSS api b clk st url orig)) = Some True \<Longrightarrow>
     checkRateLimit st (today clk) (getDomain api url)"
  by (simp add: playwrightFetchRSS_def Let_def split: if_splits sum.splits prod.splits)

lemma no_session_state:
  "usedPlaywright (fst (playwrightFetchRSS api b clk st url orig)) \<noteq> Some True \<Longrightarrow>
     snd (playwrightFetchRSS api b clk st url orig) = st"
  by (simp add: playwrightFetchRSS_def Let_def split: if_splits sum.splits prod.splits)

lemma used_today_increment:
  "used_today (incrementRateLimit st day d0) day d =
     (if d0 = d then used_today st day d + 1 else used_today st day d)"
  by (simp add: used_today_def incrementRateLimit_def split: option.splits)

lemma checkRateLimit_used:
  "checkRateLimit st day d \<longleftrightarrow> used_today st day d < MAX_RUNS_PER_DOMAIN_PER_DAY"
  by (simp add: checkRateLimit_def used_today_def MAX_RUNS_PER_DOMAIN_PER_DAY_def split: option.splits)

lemma used_today_cong: "rateLimits s = rateLimits t \<Longrightarrow> used_today s day d = used_today t day d"
  by (simp add: used_today_def)

lemma within_quota_cong: "rateLimits s = rateLimits t \<Longrightarrow> within_quota s = within_quota t"
  by (simp add: within_quota_def)

lemma within_quota_increment:
  "within_quota st \<Longrightarrow> checkRateLimit st day d0 \<Longrightarrow> within_quota (incrementRateLimit st day d0)"
  by (auto simp: within_quota_def incrementRateLimit_def checkRateLimit_def
        MAX_RUNS_PER_DOMAIN_PER_DAY_def split: option.splits if_splits)

lemma step_used:
  "used_today (snd (playwrightFetchRSS api b clk st url orig)) (today clk) d =
     used_today st (today clk) d +
       (if getDomain api url = d \<and>
           usedPlaywright (fst (playwrightFetchRSS api b clk st url orig)) = Some True
        then 1 else 0)"
proof (cases "usedPlaywright (fst (playwrightFetchRSS api b clk st url orig)) = Some True")
  case True
  then have "rateLimits (snd (playwrightFetchRSS api b clk st url orig)) =
      rateLimits (incrementRateLimit st (today clk) (getDomain api url))"
    by (simp add: session_rateLimits)
  then have "used_today (snd (playwrightFetchRSS api b clk st url orig)) (today clk) d =
      used_today (incrementRateLimit st (today clk) (getDomain api url)) (today clk) d"
    by (rule used_today_cong)
  with True show ?thesis by (simp add: used_today_increment)
next
  case False
  then show ?thesis by (simp add: no_session_state)
qed

lemma step_within_quota:
  assumes "within_quota st"
  shows "within_quota (snd (playwrightFetchRSS api b clk st url orig))"
proof (cases "usedPlaywright (fst (playwrightFetchRSS api b clk st url orig)) = Some True")
  case True
  then have "rateLimits (snd (playwrightFetchRSS api b clk st url orig)) =
      rateLimits (incrementRateLimit st (today clk) (getDomain api url))"
    by (simp add: session_rateLimits)
  then have "within_quota (snd (playwrightFetchRSS api b clk st url orig)) =
      within_quota (incrementRateLimit st (today clk) (getDomain api url))"
    by (rule within_quota_cong)
  with True assms show ?thesis
    using session_needs_quota within_quota_increment by blast
next
  case False
  with assms show ?thesis by (simp add: no_session_state)
qed

lemma run_calls_within_quota:
  "within_quota st \<Longrightarrow> within_quota (snd (run_calls api st calls))"
proof (induction calls arbitrary: st)
  case Nil
  then show ?case by simp
next
  case (Cons c cs)
  have "within_quota (snd (playwrightFetchRSS api (c_browser c) (c_clock c) st (c_url c) (c_response c)))"
    using Cons.prems by (rule step_within_quota)
  then show ?case
    using Cons.IH by (simp add: split_def Let_def)
qed

lemma run_calls_used:
  "\<forall>c \<in> set calls. today (c_clock c) = day \<Longrightarrow>
     used_today (snd (run_calls api st calls)) day d =
       used_today st day d + int (sessions_for api d calls (fst (run_calls api st calls)))"
proof (induction calls arbitrary: st)
  case Nil
  then show ?case by (simp add: sessions_for_def)
next
  case (Cons c cs)
  let ?p = "playwrightFetchRSS api (c_browser c) (c_clock c) st (c_url c) (c_response c)"
  have day: "today (c_clock c) = day" using Cons.prems by simp
  have step: "used_today (snd ?p) day d =
      used_today st day d +
        (if getDomain api (c_url c) = d \<and> usedPlaywright (fst ?p) = Some True then 1 else 0)"
    using step_used [of api "c_browser c" "c_clock c" st "c_url c" "c_response c" d] day by simp
  have rest: "used_today (snd (run_calls api (snd ?p) cs)) day d =
      used_today (snd ?p) day d + int (sessions_for api d cs (fst (run_calls api (snd ?p) cs)))"
    using Cons.IH Cons.prems by simp
  show ?case
    using step rest by (simp add: split_def Let_def sessions_for_def)
qed

lemma within_quota_used: "within_quota st \<Longrightarrow> used_today st day d \<le> MAX_RUNS_PER_DOMAIN_PER_DAY"
  by (auto simp: within_quota_def used_today_def MAX_RUNS_PER_DOMAIN_PER_DAY_def split: option.splits)

lemma exhausted_rejects:
  assumes "used_today st (today clk) (getDomain api url) \<ge> MAX_RUNS_PER_DOMAIN_PER_DAY"
  shows "snd (playwrightFetchRSS api b clk st url orig) = st \<and>
         usedPlaywright (fst (playwrightFetchRSS api b clk st url orig)) \<noteq> Some True \<and>
         (isAllowlisted api url \<and> confirmed orig \<and>
            \<not> truthy (getCachedContent st (now_start clk) url) \<longrightarrow>
            fst (playwrightFetchRSS api b clk st url orig) =
              \<lparr>success = False, res_content = None,
               error = Some (RateLimited (getDomain api url)
                  (MAX_RUNS_PER_DOMAIN_PER_DAY - used_today st (today clk) (getDomain api url))
                  MAX_RUNS_PER_DOMAIN_PER_DAY),
               fromCache = None, usedPlaywright = None\<rparr>)"
proof -
  have no: "\<not> checkRateLimit st (today clk) (getDomain api url)"
    using assms by (simp add: checkRateLimit_used)
  then have ns: "usedPlaywright (fst (playwrightFetchRSS api b clk st url orig)) \<noteq> Some True"
    using session_needs_quota by blast
  moreover have "snd (playwrightFetchRSS api b clk st url orig) = st"
    using ns by (rule no_session_state)
  moreover have "fst (playwrightFetchRSS api b clk st url orig) =
              \<lparr>success = False, res_content = None,
               error = Some (RateLimited (getDomain api url)
                  (MAX_RUNS_PER_DOMAIN_PER_DAY - used_today st (today clk) (getDomain api url))
                  MAX_RUNS_PER_DOMAIN_PER_DAY),
               fromCache = None, usedPlaywright = None\<rparr>"
    if "isAllowlisted api url" "confirmed orig" "\<not> truthy (getCachedContent st (now_start clk) url)"
    using that no
    by (simp add: playwrightFetchRSS_def Let_def confirmed_def getRateLimitStatus_def
          split: option.splits)
  ultimately show ?thesis by blast
qed

lemma stale_date_resets:
  assumes "rateLimits st (getDomain api url) = Some r" "date r \<noteq> today clk"
  shows "checkRateLimit st (today clk) (getDomain api url) \<and>
         (usedPlaywright (fst (playwrightFetchRSS api b clk st url orig)) = Some True \<longrightarrow>
            rateLimits (snd (playwrightFetchRSS api b clk st url orig)) (getDomain api url) =
              Some \<lparr>date = today clk, count = 1\<rparr>)"
  using assms
  by (simp add: session_rateLimits checkRateLimit_def incrementRateLimit_def)

lemma failed_session_counts:
  "error (fst (playwrightFetchRSS api b clk st url orig)) \<in>
       {Some (SessionError m), Some ChallengeUnsolved, Some NotAFeed} \<Longrightarrow>
     usedPlaywright (fst (playwrightFetchRSS api b clk st url orig)) = Some True"
  by (simp add: playwrightFetchRSS_def Let_def split: if_splits sum.splits prod.splits)


text \<open>
  C2. On one calendar day the sessions run for a domain, added to what the ledger already
  shows for that day, never exceed 10, and no stored counter ever exceeds 10. Once the
  day's count has reached 10 an invocation starts no session and changes nothing; if it
  gets as far as the rate-limit check it is rejected as rate limited. A stored date other
  than today lets the invocation through and restarts the count at 1. The unit is taken
  before the session runs: every session, also one that fails, adds exactly one.
\<close>

theorem C2_rate_limit:
  assumes "\<forall>c \<in> set calls. today (c_clock c) = day" and "within_quota st"
  shows "within_quota (snd (run_calls api st calls)) \<and>
         used_today (snd (run_calls api st calls)) day d =
           used_today st day d + int (sessions_for api d calls (fst (run_calls api st calls))) \<and>
         used_today st day d + int (sessions_for api d calls (fst (run_calls api st calls)))
           \<le> MAX_RUNS_PER_DOMAIN_PER_DAY \<and>
         (\<forall>b clk url orig s.
            used_today s (today clk) (getDomain api url) \<ge> MAX_RUNS_PER_DOMAIN_PER_DAY \<longrightarrow>
              snd (playwrightFetchRSS api b clk s url orig) = s \<and>
              usedPlaywright (fst (playwrightFetchRSS api b clk s url orig)) \<noteq> Some True \<and>
              (isAllowlisted api url \<and> confirmed orig \<and>
                 \<not> truthy (getCachedContent s (now_start clk) url) \<longrightarrow>
                 fst (playwrightFetchRSS api b clk s url orig) =
                   \<lparr>success = False, res_content = None,
                    error = Some (RateLimited (getDomain api url)
                       (MAX_RUNS_PER_DOMAIN_PER_DAY - used_today s (today clk) (getDomain api url))
                       MAX_RUNS_PER_DOMAIN_PER_DAY),
                    fromCache = None, usedPlaywright = None\<rparr>)) \<and>
         (\<forall>b clk url orig s r.
            rateLimits s (getDomain api url) = Some r \<and> date r \<noteq> today clk \<longrightarrow>
              checkRateLimit s (today clk) (getDomain api url) \<and>
              (usedPlaywright (fst (playwrightFetchRSS api b clk s url orig)) = Some True \<longrightarrow>
                 rateLimits (snd (playwrightFetchRSS api b clk s url orig)) (getDomain api url) =
                   Some \<lparr>date = today clk, count = 1\<rparr>)) \<and>
         (\<forall>b clk url orig s.
            usedPlaywright (fst (playwrightFetchRSS api b clk s url orig)) = Some True \<longrightarrow>
              used_today s (today clk) (getDomain api url) < MAX_RUNS_PER_DOMAIN_PER_DAY \<and>
              used_today (snd (playwrightFetchRSS api b clk s url orig)) (today clk) (getDomain api url) =
                used_today s (today clk) (getDomain api url) + 1) \<and>
         (\<forall>b clk url orig s m.
            error (fst (playwrightFetchRSS api b clk s url orig)) \<in>
              {Some (SessionError m), Some ChallengeUnsolved, Some NotAFeed} \<longrightarrow>
              usedPlaywright (fst (playwrightFetchRSS api b clk s url orig)) = Some True)"
proof -
  have q: "within_quota (snd (run_calls api st calls))"
    using assms(2) by (rule run_calls_within_quota)
  have u: "used_today (snd (run_calls api st calls)) day d =
           used_today st day d + int (sessions_for api d calls (fst (run_calls api st calls)))"
    using assms(1) by (rule run_calls_used)
  have le: "used_today st day d + int (sessions_for api d calls (fst (run_calls api st calls)))
           \<le> MAX_RUNS_PER_DOMAIN_PER_DAY"
    using within_quota_used [OF q, of day d] u by simp
  have consumed: "used_today s (today clk) (getDomain api url) < MAX_RUNS_PER_DOMAIN_PER_DAY \<and>
      used_today (snd (playwrightFetchRSS api b clk s url orig)) (today clk) (getDomain api url) =
        used_today s (today clk) (getDomain api url) + 1"
    if "usedPlaywright (fst (playwrightFetchRSS api b clk s url orig)) = Some True"
    for b clk url orig s
    using that session_needs_quota [OF that] step_used [of api b clk s url orig "getDomain api url"]
    by (simp add: checkRateLimit_used)
  have ex: "\<forall>b clk url orig s.
            used_today s (today clk) (getDomain api url) \<ge> MAX_RUNS_PER_DOMAIN_PER_DAY \<longrightarrow>
              snd (playwrightFetchRSS api b clk s url orig) = s \<and>
              usedPlaywright (fst (playwrightFetchRSS api b clk s url orig)) \<noteq> Some True \<and>
              (isAllowlisted api url \<and> confirmed orig \<and>
                 \<not> truthy (getCachedContent s (now_start clk) url) \<longrightarrow>
                 fst (playwrightFetchRSS api b clk s url orig) =
                   \<lparr>success = False, res_content = None,
                    error = Some (RateLimited (getDomain api url)
                       (MAX_RUNS_PER_DOMAIN_PER_DAY - used_today s (today clk) (getDomain api url))
                       MAX_RUNS_PER_DOMAIN_PER_DAY),
                    fromCache = None, usedPlaywright = None\<rparr>)"
    using exhausted_rejects by (intro allI impI) 
  have stale: "\<forall>b clk url orig s r.
            rateLimits s (getDomain api url) = Some r \<and> date r \<noteq> today clk \<longrightarrow>
              checkRateLimit s (today clk) (getDomain api url) \<and>
              (usedPlaywright (fst (playwrightFetchRSS api b clk s url orig)) = Some True \<longrightarrow>
                 rateLimits (snd (playwrightFetchRSS api b clk s url orig)) (getDomain api url) =
                   Some \<lparr>date = today clk, count = 1\<rparr>)"
    using stale_date_resets by (intro allI impI) (elim conjE)
  have failed: "\<forall>b clk url orig s m.
            error (fst (playwrightFetchRSS api b clk s url orig)) \<in>
              {Some (SessionError m), Some ChallengeUnsolved, Some NotAFeed} \<longrightarrow>
              usedPlaywright (fst (playwrightFetchRSS api b clk s url orig)) = Some True"
    using failed_session_counts by (intro allI impI)
  have cons: "\<forall>b clk url orig s.
            usedPlaywright (fst (playwrightFetchRSS api b clk s url orig)) = Some True \<longrightarrow>
              used_today s (today clk) (getDomain api url) < MAX_RUNS_PER_DOMAIN_PER_DAY \<and>
              used_today (snd (playwrightFetchRSS api b clk s url orig)) (today clk) (getDomain api url) =
                used_today s (today clk) (getDomain api url) + 1"
    using consumed by (intro allI impI)
  show ?thesis
    using q u le ex stale cons failed by (intro conjI)
qed

theorem C2_rate_limit_witness:
  "used_today (snd (run_calls fixture_api empty_state (replicate 10 bypass_call)))
      ''2025-01-15'' ''connectcre.com'' = 10 \<and>
   sessions_for fixture_api ''connectcre.com'' (replicate 10 bypass_call)
      (fst (run_calls fixture_api empty_state (replicate 10 bypass_call))) = 10 \<and>
   fst (playwrightFetchRSS fixture_api browser_down (clock_at 5000 ''2025-01-15'')
      (snd (run_calls fixture_api empty_state (replicate 10 bypass_call)))
      ''https://www.connectcre.com/feed/'' None) =
      \<lparr>success = False, res_content = None,
       error = Some (RateLimited ''connectcre.com'' 0 10),
       fromCache = None, usedPlaywright = None\<rparr>"
proof -
  have day: "\<forall>c \<in> set (replicate 10 bypass_call). today (c_clock c) = ''2025-01-15''"
    by (simp add: bypass_call_def clock_at_def)
  have quota: "within_quota empty_state"
    by (simp add: within_quota_def empty_state_def)
  have ran: "sessions_for fixture_api ''connectcre.com'' (replicate 10 bypass_call)
      (fst (run_calls fixture_api empty_state (replicate 10 bypass_call))) = 10"
    by code_simp
  have fresh: "used_today empty_state ''2025-01-15'' ''connectcre.com'' = 0"
    by (simp add: used_today_def empty_state_def)
  have eleventh: "fst (playwrightFetchRSS fixture_api browser_down (clock_at 5000 ''2025-01-15'')
      (snd (run_calls fixture_api empty_state (replicate 10 bypass_call)))
      ''https://www.connectcre.com/feed/'' None) =
      \<lparr>success = False, res_content = None,
       error = Some (RateLimited ''connectcre.com'' 0 10),
       fromCache = None, usedPlaywright = None\<rparr>"
    by code_simp
  show ?thesis
    using C2_rate_limit [OF day quota, of fixture_api "''connectcre.com''"] ran fresh eleventh
    by simp
qed

section \<open>The feed cache\<close>

lemma cache_hit:
  assumes "isAllowlisted api url" "confirmed orig" "c \<noteq> []" "now_start clk < t + CACHE_TTL_MS"
  shows "playwrightFetchRSS api b clk (setCachedContent st t url c) url orig =
           (\<lparr>success = True, res_content = Some c, error = None,
             fromCache = Some True, usedPlaywright = Some False\<rparr>, setCachedContent st t url c)"
  using assms
  by (simp add: playwrightFetchRSS_def Let_def confirmed_def getCachedContent_def
        setCachedContent_def truthy_def split: option.splits)

lemma expired_not_served:
  assumes "feedCache s url = Some e" "expiresAt e \<le> now_start clk"
  shows "getCachedContent s (now_start clk) url = None \<and>
         fromCache (fst (playwrightFetchRSS api b clk s url orig)) \<noteq> Some True"
  using assms
  by (simp add: playwrightFetchRSS_def Let_def getCachedContent_def truthy_def
        split: option.splits sum.splits prod.splits)

lemma unconfirmed_rejected:
  assumes "isAllowlisted api url" "\<not> confirmed orig"
  shows "playwrightFetchRSS api b clk s url orig =
           (\<lparr>success = False, res_content = None, error = Some NotAChallenge,
             fromCache = None, usedPlaywright = None\<rparr>, s)"
  using assms
  by (simp add: playwrightFetchRSS_def Let_def confirmed_def split: option.splits)

lemma or_str_nonempty: "d \<noteq> [] \<Longrightarrow> or_str a d \<noteq> []"
  by (simp add: or_str_def split: option.splits)

lemma extract_xml_nonempty: "has_feed_marker c \<Longrightarrow> extract_xml c \<noteq> []"
proof -
  assume "has_feed_marker c"
  then have "c \<noteq> []"
    by (auto simp: has_feed_marker_def str_includes_def)
  then show ?thesis
    by (simp add: extract_xml_def Let_def or_str_nonempty)
qed

text \<open>
  C3 (amended). For an allowlisted URL and non-empty content: after \<open>setCachedContent\<close>
  has stored the content at time \<open>t\<close>, an invocation for the same URL before
  \<open>t + 12h\<close> that passes the challenge confirmation returns success with exactly that
  content, marked \<open>fromCache\<close>, starts no session and leaves the rate-limit ledger as it
  was. An entry whose expiry time has been reached is never served. An invocation whose
  triggering response is not a challenge is rejected before the cache is consulted.
\<close>

theorem C3_cache_round_trip:
  assumes "isAllowlisted api url" "confirmed orig" "c \<noteq> []" "now_start clk < t + CACHE_TTL_MS"
  shows "playwrightFetchRSS api b clk (setCachedContent st t url c) url orig =
           (\<lparr>success = True, res_content = Some c, error = None,
             fromCache = Some True, usedPlaywright = Some False\<rparr>, setCachedContent st t url c) \<and>
         rateLimits (snd (playwrightFetchRSS api b clk (setCachedContent st t url c) url orig)) =
           rateLimits st \<and>
         (\<forall>s e orig'. feedCache s url = Some e \<and> expiresAt e \<le> now_start clk \<longrightarrow>
            getCachedContent s (now_start clk) url = None \<and>
            fromCache (fst (playwrightFetchRSS api b clk s url orig')) \<noteq> Some True) \<and>
         (\<forall>s orig'. \<not> confirmed orig' \<longrightarrow>
            playwrightFetchRSS api b clk s url orig' =
              (\<lparr>success = False, res_content = None, error = Some NotAChallenge,
                fromCache = None, usedPlaywright = None\<rparr>, s))"
proof -
  have hit: "playwrightFetchRSS api b clk (setCachedContent st t url c) url orig =
           (\<lparr>success = True, res_content = Some c, error = None,
             fromCache = Some True, usedPlaywright = Some False\<rparr>, setCachedContent st t url c)"
    using assms by (rule cache_hit)
  have rl: "rateLimits (snd (playwrightFetchRSS api b clk (setCachedContent st t url c) url orig)) =
           rateLimits st"
    unfolding hit by (simp add: setCachedContent_def)
  have ex: "\<forall>s e orig'. feedCache s url = Some e \<and> expiresAt e \<le> now_start clk \<longrightarrow>
            getCachedContent s (now_start clk) url = None \<and>
            fromCache (fst (playwrightFetchRSS api b clk s url orig')) \<noteq> Some True"
    using expired_not_served by (intro allI impI) (elim conjE)
  have un: "\<forall>s orig'. \<not> confirmed orig' \<longrightarrow>
            playwrightFetchRSS api b clk s url orig' =
              (\<lparr>success = False, res_content = None, error = Some NotAChallenge,
                fromCache = None, usedPlaywright = None\<rparr>, s)"
    using unconfirmed_rejected [OF assms(1)] by (intro allI impI)
  show ?thesis using hit rl ex un by (intro conjI)
qed


theorem C3_cache_round_trip_witness:
  "playwrightFetchRSS fixture_api browser_down (clock_at 60000 ''2025-01-15'')
      (setCachedContent empty_state 31000 ''https://www.connectcre.com/feed/''
         ''<rss><channel></channel></rss>'')
      ''https://www.connectcre.com/feed/'' None =
     (\<lparr>success = True, res_content = Some ''<rss><channel></channel></rss>'', error = None,
       fromCache = Some True, usedPlaywright = Some False\<rparr>,
      setCachedContent empty_state 31000 ''https://www.connectcre.com/feed/''
         ''<rss><channel></channel></rss>'')"
proof -
  have a: "isAllowlisted fixture_api ''https://www.connectcre.com/feed/''"
    by code_simp
  have g: "confirmed None"
    by (simp add: confirmed_def)
  have n: "''<rss><channel></channel></rss>'' \<noteq> []"
    by simp
  have t: "now_start (clock_at 60000 ''2025-01-15'') < 31000 + CACHE_TTL_MS"
    by (simp add: clock_at_def CACHE_TTL_MS_def)
  show ?thesis
    using C3_cache_round_trip [OF a g n t, of browser_down empty_state] by simp
qed

text \<open>
  C3 as stated fails: the stores hold a fresh entry for the URL, written by a
  successful bypass, and yet an invocation for that URL inside the TTL whose triggering
  response is an ordinary 200 is rejected instead of being served from the cache.
\<close>

theorem C3_counterexample:
  "feedCache state_after_fetch ''https://www.connectcre.com/feed/'' =
     Some \<lparr>content = ''<rss><channel></channel></rss>'', fetchedAt = 31000,
           expiresAt = 31000 + CACHE_TTL_MS\<rparr> \<and>
   now_start (clock_at 60000 ''2025-01-15'') < 31000 + CACHE_TTL_MS \<and>
   fst (playwrightFetchRSS fixture_api browser_feed (clock_at 60000 ''2025-01-15'') state_after_fetch
          ''https://www.connectcre.com/feed/''
          (Some \<lparr>status = 200, body = ''<rss><channel></channel></rss>''\<rparr>)) =
     \<lparr>success = False, res_content = None, error = Some NotAChallenge,
      fromCache = None, usedPlaywright = None\<rparr>"
  by code_simp

section \<open>Cookie persistence\<close>
















section \<open>The circuit breaker\<close>

lemma store_article_breaker:
  "circuitBreaker (store_article clk url n st article) url =
     map_option (\<lambda>cb. cb\<lparr>failureCount := 0, blockedUntil := 0\<rparr>) (circuitBreaker st url)"
  by (simp add: store_article_def split: option.splits)

lemma store_articles_breaker:
  "arts \<noteq> [] \<Longrightarrow>
   circuitBreaker (fold (\<lambda>article s. store_article clk url n s article) arts st) url =
     map_option (\<lambda>cb. cb\<lparr>failureCount := 0, blockedUntil := 0\<rparr>) (circuitBreaker st url)"
proof (induction arts arbitrary: st)
  case Nil
  then show ?case by simp
next
  case (Cons a as)
  show ?case
  proof (cases "as = []")
    case True
    then show ?thesis by (simp add: store_article_breaker)
  next
    case False
    then show ?thesis
      using Cons.IH [of "store_article clk url n st a"]
      by (simp add: store_article_breaker option.map_comp comp_def)
  qed
qed

lemma success_with_articles_resets:
  assumes "articles r = Some arts" "arts \<noteq> []" "pr_error r = None"
  shows "circuitBreaker (snd (process_result clk st r)) (feed_url (feed r)) =
           map_option (\<lambda>cb. cb\<lparr>failureCount := 0, blockedUntil := 0\<rparr>)
             (circuitBreaker st (feed_url (feed r)))"
  using assms store_articles_breaker [of arts clk "feed_url (feed r)" "int (length arts)" st]
  by (simp add: process_result_def Let_def)

lemma success_without_articles_keeps:
  assumes "articles r = Some [] \<or> articles r = None" "pr_error r = None"
  shows "snd (process_result clk st r) = st"
  using assms by (auto simp: process_result_def Let_def)

lemma failure_blocks_only_at_three:
  assumes "circuitBreaker (record_failure clk url msg st) url = Some cb'"
  shows "failureCount cb' =
           (case circuitBreaker st url of None \<Rightarrow> 1 | Some cb \<Rightarrow> failureCount cb + 1) \<and>
         blockedUntil cb' =
           (if failureCount cb' \<ge> MAX_FAILURES_BEFORE_BLOCK then fc_now clk + BLOCKED_COOLDOWN_MS
            else (case circuitBreaker st url of None \<Rightarrow> 0 | Some cb \<Rightarrow> blockedUntil cb))"
  using assms by (auto simp: record_failure_def Let_def split: option.splits if_splits)

lemma process_result_indep:
  "fst (process_result clk st r) = fst (process_result clk st' r)"
  by (simp add: process_result_def Let_def)

lemma process_results_indep:
  "fst (process_results clk st rs) = fst (process_results clk st' rs)"
proof (induction rs arbitrary: st st')
  case Nil
  show ?case by simp
next
  case (Cons r rs)
  have "fst (process_results clk (snd (process_result clk st r)) rs) =
        fst (process_results clk (snd (process_result clk st' r)) rs)"
    by (rule Cons.IH)
  then show ?case
    using process_result_indep [of clk st r st']
    by (simp add: split_def Let_def)
qed

lemma breaker_never_consulted:
  "fst (fetchAllRSSArticles pipeline clk feeds manual st) =
   fst (fetchAllRSSArticles pipeline clk feeds manual st')"
  using process_results_indep [of clk st "pipeline (enabled_feeds feeds)" st']
  by (simp add: fetchAllRSSArticles_def Let_def split_def)

text \<open>
  C1. A source whose breaker is open should fail fast without being fetched. The code
  does otherwise: after three failing runs the breaker of the source is open, and in
  the next run, one minute into the 24-hour cooldown, the source is still among the
  feeds handed to the pipeline and its result is an ordinary \<open>ok\<close> with the fetched article.
\<close>

theorem C1_blocked_source_is_fetched:
  "is_blocked after_three_failures (fc_now (run_clock 180000)) ''https://www.connectcre.com/feed/'' \<and>
   enabled_feeds [source_feed] = [source_feed] \<and>
   fst (fetchAllRSSArticles serving_pipeline (run_clock 180000) [source_feed] [] after_three_failures) =
     [\<lparr>fr_status = Ok, fr_articles = [story_new],
       meta = \<lparr>meta_feed = ''ConnectCRE'', fetchedRaw = 1, kept = 1, filteredOut = 0,
               durationMs = 500\<rparr>,
       fr_error = None\<rparr>]"
  by code_simp

text \<open>
  C4. A successful fetch should reset the failure count. The code does otherwise when the
  successful fetch brings no article: after two failing runs the count is 2, a run that
  ends \<open>ok\<close> with an empty article list leaves it at 2, and one more failure opens the
  breaker although the three failures were not consecutive.
\<close>

theorem C4_empty_success_keeps_failure_count:
  "circuitBreaker after_two_failures ''https://www.connectcre.com/feed/'' =
     Some \<lparr>failureCount = 2, blockedUntil = 0, lastError = Some ''HTTP 503'', last403Preview = None\<rparr> \<and>
   map fr_status (fst (fetchAllRSSArticles quiet_pipeline (run_clock 120000) [source_feed] []
      after_two_failures)) = [Ok] \<and>
   circuitBreaker (snd (fetchAllRSSArticles quiet_pipeline (run_clock 120000) [source_feed] []
      after_two_failures)) ''https://www.connectcre.com/feed/'' =
     Some \<lparr>failureCount = 2, blockedUntil = 0, lastError = Some ''HTTP 503'', last403Preview = None\<rparr> \<and>
   is_blocked
     (snd (fetchAllRSSArticles failing_pipeline (run_clock 180000) [source_feed] []
        (snd (fetchAllRSSArticles quiet_pipeline (run_clock 120000) [source_feed] []
           after_two_failures))))
     (fc_now (run_clock 180000)) ''https://www.connectcre.com/feed/''"
  by code_simp

section \<open>Normalization\<close>

lemma or_str_truthy: "truthy a \<Longrightarrow> or_str a d = or_str a d'"
  by (simp add: truthy_def or_str_def split: option.splits)

lemma or_else_truthy: "truthy a \<or> truthy b \<Longrightarrow> truthy (or_else a b)"
  by (auto simp: or_else_def)

lemma or_else_not_truthy: "\<not> truthy a \<Longrightarrow> \<not> truthy b \<Longrightarrow> or_str (or_else a b) d = d"
  by (auto simp: or_else_def or_str_def truthy_def split: option.splits)

text \<open>
  C5 (amended). For every input record with a non-empty \<open>id\<close> or \<open>link\<close> the identifier
  is the same on every evaluation: it is the \<open>id\<close>, else the \<open>link\<close>. With neither, the
  identifier is the random string drawn at the call. The publication date is the same on
  every evaluation when the record carries \<open>date_published\<close> or \<open>pubDate\<close>: it is the
  former, else the latter. With neither, the publication date is the time of the call.
  Link, description, source, author, category and the copied properties never depend on
  the evaluation. A record with an identifier and a date is normalized identically by
  any two evaluations.
\<close>

theorem C5_deterministic_when_identified:
  "(truthy (r_id item) \<or> truthy (r_link item) \<longrightarrow>
      a_id (transformArticle env item) = a_id (transformArticle env' item) \<and>
      a_id (transformArticle env item) = or_str (or_else (r_id item) (r_link item)) []) \<and>
   (\<not> truthy (r_id item) \<and> \<not> truthy (r_link item) \<longrightarrow>
      a_id (transformArticle env item) = random_string env) \<and>
   (truthy (r_date_published item) \<or> truthy (r_pubDate item) \<longrightarrow>
      a_pubDate (transformArticle env item) = a_pubDate (transformArticle env' item) \<and>
      a_pubDate (transformArticle env item) =
        or_str (or_else (r_date_published item) (r_pubDate item)) []) \<and>
   (\<not> truthy (r_date_published item) \<and> \<not> truthy (r_pubDate item) \<longrightarrow>
      a_pubDate (transformArticle env item) = iso_now env) \<and>
   a_link (transformArticle env item) = a_link (transformArticle env' item) \<and>
   a_description (transformArticle env item) = a_description (transformArticle env' item) \<and>
   a_source (transformArticle env item) = a_source (transformArticle env' item) \<and>
   a_author (transformArticle env item) = a_author (transformArticle env' item) \<and>
   a_category (transformArticle env item) = a_category (transformArticle env' item) \<and>
   spread (transformArticle env item) = spread (transformArticle env' item) \<and>
   ((truthy (r_id item) \<or> truthy (r_link item)) \<and>
    (truthy (r_date_published item) \<or> truthy (r_pubDate item)) \<longrightarrow>
      transformArticle env item = transformArticle env' item)"
proof -
  have idv: "or_str (or_else (r_id item) (r_link item)) d = or_str (or_else (r_id item) (r_link item)) d'"
    if "truthy (r_id item) \<or> truthy (r_link item)" for d d'
    using that or_else_truthy or_str_truthy by blast
  have dt: "or_str (or_else (r_date_published item) (r_pubDate item)) d =
            or_str (or_else (r_date_published item) (r_pubDate item)) d'"
    if "truthy (r_date_published item) \<or> truthy (r_pubDate item)" for d d'
    using that or_else_truthy or_str_truthy by blast
  have rnd: "a_id (transformArticle env item) = random_string env"
    if "\<not> truthy (r_id item)" "\<not> truthy (r_link item)"
    using that by (simp add: transformArticle_def or_else_not_truthy)
  have clk: "a_pubDate (transformArticle env item) = iso_now env"
    if "\<not> truthy (r_date_published item)" "\<not> truthy (r_pubDate item)"
    using that by (simp add: transformArticle_def or_else_not_truthy)
  show ?thesis
    using idv dt rnd clk by (auto simp: transformArticle_def)
qed

theorem C5_deterministic_when_identified_witness:
  "truthy (r_id entry_with_id) \<and> truthy (r_date_published entry_with_id) \<and>
   transformArticle first_run entry_with_id = transformArticle second_run entry_with_id \<and>
   a_id (transformArticle first_run entry_with_id) = ''guid-1'' \<and>
   a_pubDate (transformArticle first_run entry_without_date) = iso_now first_run"
proof -
  have p1: "truthy (r_id entry_with_id)"
    by (simp add: entry_with_id_def truthy_def)
  have p2: "truthy (r_date_published entry_with_id)"
    by (simp add: entry_with_id_def entry_without_id_def truthy_def)
  have v: "or_str (or_else (r_id entry_with_id) (r_link entry_with_id)) [] = ''guid-1''"
    by (simp add: entry_with_id_def truthy_def or_str_def or_else_def)
  note inst = C5_deterministic_when_identified [of entry_with_id first_run second_run]
  have eq: "transformArticle first_run entry_with_id = transformArticle second_run entry_with_id"
    using inst p1 p2 by blast
  have "a_id (transformArticle first_run entry_with_id) =
        or_str (or_else (r_id entry_with_id) (r_link entry_with_id)) []"
    using inst p1 by blast
  moreover have "a_pubDate (transformArticle first_run entry_without_date) = iso_now first_run"
    using C5_deterministic_when_identified [of entry_without_date first_run second_run]
    by (simp add: entry_without_date_def entry_with_id_def entry_without_id_def truthy_def)
  ultimately show ?thesis using p1 p2 eq v by simp
qed

text \<open>
  C5 as stated fails twice over. An entry with neither \<open>id\<close> nor \<open>link\<close> receives the
  random string of the run as its identifier, and an entry without a date receives the
  time of the run as its publication date, so two evaluations on the same input differ
  in the identifier of the first entry and in the publication date of the second.
\<close>

theorem C5_counterexample:
  "a_id (transformArticle first_run entry_without_id) = ''0.1373'' \<and>
   a_id (transformArticle second_run entry_without_id) = ''0.9021'' \<and>
   a_id (transformArticle first_run entry_without_id) \<noteq>
   a_id (transformArticle second_run entry_without_id) \<and>
   a_pubDate (transformArticle first_run entry_without_date) = ''2025-01-15T08:00:00.000Z'' \<and>
   a_pubDate (transformArticle second_run entry_without_date) = ''2025-01-16T08:00:00.000Z'' \<and>
   a_pubDate (transformArticle first_run entry_without_date) \<noteq>
   a_pubDate (transformArticle second_run entry_without_date)"
  by code_simp

end
